theory Spec2Isabelle
  imports Main
begin

section \<open>The termination dialog (runs/TerminationDialog.tsx)\<close>

subsection \<open>Data\<close>

text \<open>
  A JavaScript object with string keys is modelled as the list of its own properties in
  the order \<open>Object.keys\<close> enumerates them. The keys of an object are pairwise distinct;
  theorems that depend on it assume that the keys are distinct.
  \<open>SelectedRuns\<close> maps a run id to its \<open>canTerminate\<close> value.
\<close>

type_synonym SelectedRuns = "(string \<times> bool) list"

definition Object_keys :: "(string \<times> 'v) list \<Rightarrow> string list" where
  "Object_keys obj = map fst obj"

text \<open>\<open>obj[id]\<close>: the value of the property, \<open>None\<close> (undefined) when there is none.\<close>

definition get_prop :: "(string \<times> 'v) list \<Rightarrow> string \<Rightarrow> 'v option" where
  "get_prop obj key = map_of obj key"

text \<open>The truthiness of \<open>selectedRuns[id]\<close>, a boolean or undefined.\<close>

definition truthy :: "bool option \<Rightarrow> bool" where
  "truthy v = (case v of None \<Rightarrow> False | Some b \<Rightarrow> b)"

text \<open>
  The result of the terminate mutation. Its GraphQL types (\<open>TerminateMutation\<close>, in
  types/RunUtils.types) are declared outside the files at hand; the record holds the two
  fields the dialog reads, \<open>__typename\<close> and \<open>message\<close>. The \<open>data\<close> of a mutation
  result is a \<open>TerminateMutation\<close>, null or undefined; null and undefined are both
  \<open>None\<close>, since the dialog reads \<open>data\<close> through \<open>data?.\<close> only.
\<close>

record TerminateRunResult =
  typename :: string
  message :: string

record TerminateMutation =
  terminatePipelineExecution :: TerminateRunResult

type_synonym MutationData = "TerminateMutation option"

text \<open>\<open>data?.terminatePipelineExecution\<close> and \<open>data?.terminatePipelineExecution.__typename\<close>.\<close>

definition data_result :: "MutationData \<Rightarrow> TerminateRunResult option" where
  "data_result data = map_option terminatePipelineExecution data"

definition data_typename :: "MutationData \<Rightarrow> string option" where
  "data_typename data = map_option typename (data_result data)"

text \<open>
  What \<open>mutate\<close> can throw: the \<open>ErrorEvent\<close> of \<open>refineToError\<close>, and the
  reason of a rejected mutation promise, which \<open>await\<close> rethrows (an \<open>ApolloError\<close>).
\<close>

datatype exn = ErrorEvent string | ApolloError string

text \<open>\<open>refineToError\<close> throws on a success result and returns the payload otherwise.\<close>

definition refineToError :: "MutationData \<Rightarrow> exn + TerminateRunResult option" where
  "refineToError data =
     (if data_typename data = Some ''TerminateRunSuccess''
      then Inl (ErrorEvent ''Not an error!'')
      else Inr (data_result data))"

text \<open>\<open>type Error = ReturnType<typeof refineToError> | undefined\<close>.\<close>

type_synonym Error = "TerminateRunResult option"

text \<open>
  \<open>completed\<close> is a JavaScript number that starts at 0 and is only ever incremented by
  one; such counts are exact integers (far below \<open>2 ^ 53\<close>), modelled as \<open>nat\<close>.
  \<open>errors\<close> is an object keyed by run id; a key can be present with the value
  undefined (\<open>Some None\<close>).
\<close>

record TerminationState =
  completed :: nat
  errors :: "string \<rightharpoonup> Error"

datatype Step = Initial | Terminating | Completed

text \<open>
  The field \<open>termination\<close> of the dialog's state is written \<open>termination'\<close>, since
  the plain name is a keyword of the theory language.
\<close>

record TerminationDialogState =
  mustForce :: bool
  frozenRuns :: SelectedRuns
  step :: Step
  termination' :: TerminationState

definition initializeState :: "SelectedRuns \<Rightarrow> TerminationDialogState" where
  "initializeState selectedRuns =
     \<lparr> mustForce = \<not> list_ex (\<lambda>rid. truthy (get_prop selectedRuns rid)) (Object_keys selectedRuns),
       frozenRuns = selectedRuns,
       step = Initial,
       termination' = \<lparr> completed = 0, errors = Map.empty \<rparr> \<rparr>"

datatype TerminationDialogAction =
    Reset SelectedRuns
  | ToggleForceTerminate bool
  | Start
  | TerminationSuccess
  | TerminationError string Error
  | Complete

fun terminationDialogReducer ::
  "TerminationDialogState \<Rightarrow> TerminationDialogAction \<Rightarrow> TerminationDialogState" where
  "terminationDialogReducer prevState (Reset runs) = initializeState runs"
| "terminationDialogReducer prevState (ToggleForceTerminate checked) =
     prevState\<lparr> mustForce := checked \<rparr>"
| "terminationDialogReducer prevState Start = prevState\<lparr> step := Terminating \<rparr>"
| "terminationDialogReducer prevState TerminationSuccess =
     prevState\<lparr> step := Terminating,
                termination' := (termination' prevState)
                  \<lparr> completed := completed (termination' prevState) + 1 \<rparr> \<rparr>"
| "terminationDialogReducer prevState (TerminationError rid error) =
     prevState\<lparr> step := Terminating,
                termination' := (termination' prevState)
                  \<lparr> completed := completed (termination' prevState) + 1,
                    errors := (errors (termination' prevState))(rid \<mapsto> error) \<rparr> \<rparr>"
| "terminationDialogReducer prevState Complete = prevState\<lparr> step := Completed \<rparr>"

text \<open>Classification of actions, used to state properties of the reducer.\<close>

fun is_reset :: "TerminationDialogAction \<Rightarrow> bool" where
  "is_reset (Reset runs) = True"
| "is_reset a = False"

fun is_outcome :: "TerminationDialogAction \<Rightarrow> bool" where
  "is_outcome TerminationSuccess = True"
| "is_outcome (TerminationError rid error) = True"
| "is_outcome a = False"

subsection \<open>The batch\<close>

datatype TerminateRunPolicy = SAFE_TERMINATE | MARK_AS_CANCELED_IMMEDIATELY

definition policy :: "TerminationDialogState \<Rightarrow> TerminateRunPolicy" where
  "policy state = (if mustForce state then MARK_AS_CANCELED_IMMEDIATELY else SAFE_TERMINATE)"

record TerminateMutationVariables =
  runId :: string
  terminatePolicy :: TerminateRunPolicy

text \<open>
  A promise settles: it resolves to a value or it is rejected with a reason.
\<close>

datatype 'a settled = Resolved 'a | Rejected string

text \<open>
  \<open>mutate\<close> is an effectful procedure. Its effects are collected in a record: the actions
  it dispatches to the reducer, in order; the terminate mutations it issues, in order, each
  with what its promise settled to; the calls of \<open>onComplete\<close>; the exception that ends
  it, if one does; and the state of the backend. The \<open>terminate\<close> function of the Apollo
  client is a parameter: it takes the backend's state and the variables of the mutation,
  and gives what the promise settles to and the backend's next state. Each call is awaited,
  so the next call meets the backend as the previous one left it. A promise that resolves
  carries the \<open>data\<close> that \<open>const {data} = await terminate(...)\<close> reads (null or
  undefined is \<open>None\<close>). The mutation is created by \<open>useMutation\<close> without an
  \<open>onError\<close> handler and \<open>mutate\<close> has no \<open>try\<close>: a promise that is rejected makes
  \<open>await\<close> throw, which ends \<open>mutate\<close> there.
  Actions that other parts of the component dispatch while a batch is under way (a
  \<open>reset\<close> when the dialog is reopened) are outside \<open>mutate\<close> and not part of its
  effects.
\<close>

record 'b effects =
  dispatched :: "TerminationDialogAction list"
  requests :: "(TerminateMutationVariables \<times> MutationData settled) list"
  onComplete_calls :: "TerminationState list"
  thrown :: "exn option"
  backend :: 'b

definition dispatch :: "TerminationDialogAction \<Rightarrow> 'b effects \<Rightarrow> 'b effects" where
  "dispatch a w = w\<lparr> dispatched := dispatched w @ [a] \<rparr>"

text \<open>
  The \<open>for\<close> loop of \<open>mutate\<close> over \<open>runList\<close>, from index \<open>ii\<close> on. An exception
  ends the loop: the remaining run ids are not visited.
\<close>

fun mutate_loop ::
  "('b \<Rightarrow> TerminateMutationVariables \<Rightarrow> MutationData settled \<times> 'b) \<Rightarrow> TerminateRunPolicy \<Rightarrow>
     string list \<Rightarrow> 'b effects \<Rightarrow> 'b effects" where
  "mutate_loop terminate pol [] w = w"
| "mutate_loop terminate pol (rid # rest) w =
     (let variables = \<lparr> runId = rid, terminatePolicy = pol \<rparr>;
          (outcome, b) = terminate (backend w) variables;
          w1 = w\<lparr> requests := requests w @ [(variables, outcome)], backend := b \<rparr>
      in case outcome of
           Rejected reason \<Rightarrow> w1\<lparr> thrown := Some (ApolloError reason) \<rparr>
         | Resolved data \<Rightarrow>
             if data_typename data = Some ''TerminateRunSuccess''
             then mutate_loop terminate pol rest (dispatch TerminationSuccess w1)
             else (case refineToError data of
                     Inl e \<Rightarrow> w1\<lparr> thrown := Some e \<rparr>
                   | Inr error \<Rightarrow>
                       mutate_loop terminate pol rest
                         (dispatch (TerminationError rid error) w1)))"

text \<open>
  \<open>mutate\<close>, as created by the render whose reducer state is \<open>state\<close>. The constant
  \<open>state\<close> that the closure reads is the state of that render: \<open>dispatch\<close> hands an action
  to the reducer and leaves \<open>state\<close> as it is. When the loop has thrown, neither
  \<open>dispatch({type: 'complete'})\<close> nor \<open>onComplete\<close> is reached.
\<close>

definition mutate ::
  "TerminationDialogState \<Rightarrow>
     ('b \<Rightarrow> TerminateMutationVariables \<Rightarrow> MutationData settled \<times> 'b) \<Rightarrow> 'b \<Rightarrow> 'b effects" where
  "mutate state terminate b =
     (let w0 = dispatch Start
                 \<lparr> dispatched = [], requests = [], onComplete_calls = [], thrown = None,
                   backend = b \<rparr>;
          runList = Object_keys (frozenRuns state);
          w1 = mutate_loop terminate (policy state) runList w0
      in case thrown w1 of
           Some e \<Rightarrow> w1
         | None \<Rightarrow>
             (dispatch Complete w1)
               \<lparr> onComplete_calls := onComplete_calls w1 @ [termination' state] \<rparr>)"

text \<open>
  The reducer's state once it has processed the actions a run of \<open>mutate\<close> dispatched,
  starting from the state of the render that created \<open>mutate\<close>.
\<close>

definition dialog_after :: "TerminationDialogState \<Rightarrow> 'b effects \<Rightarrow> TerminationDialogState" where
  "dialog_after state w = foldl terminationDialogReducer state (dispatched w)"

subsection \<open>Notions used to state the properties of the batch\<close>

text \<open>
  Issuing mutations one after the other, each awaiting the previous one: the list pairs
  every mutation's variables with what the backend answers, where the backend meets each
  mutation in the state the previous one left. No mutation is issued after one that is
  rejected.
\<close>

fun sequential_calls ::
  "('b \<Rightarrow> TerminateMutationVariables \<Rightarrow> MutationData settled \<times> 'b) \<Rightarrow>
     TerminateMutationVariables list \<Rightarrow> 'b \<Rightarrow>
     (TerminateMutationVariables \<times> MutationData settled) list" where
  "sequential_calls terminate [] b = []"
| "sequential_calls terminate (v # vs) b =
     (case fst (terminate b v) of
        Rejected reason \<Rightarrow> [(v, Rejected reason)]
      | Resolved data \<Rightarrow>
          (v, Resolved data) # sequential_calls terminate vs (snd (terminate b v)))"

text \<open>The reason of the rejected mutation of a log of requests, if there is one.\<close>

fun rejection :: "('v \<times> 'a settled) list \<Rightarrow> string option" where
  "rejection [] = None"
| "rejection ((v, Rejected reason) # log) = Some reason"
| "rejection ((v, Resolved data) # log) = rejection log"

fun is_resolved :: "'v \<times> 'a settled \<Rightarrow> bool" where
  "is_resolved (v, Resolved data) = True"
| "is_resolved (v, Rejected reason) = False"

text \<open>The variables of the mutations of a batch, in the order of \<open>Object.keys\<close>.\<close>

definition batch_variables :: "TerminationDialogState \<Rightarrow> TerminateMutationVariables list" where
  "batch_variables state =
     map (\<lambda>rid. \<lparr> runId = rid, terminatePolicy = policy state \<rparr>) (Object_keys (frozenRuns state))"

text \<open>
  The actions by which a settled mutation is reported to the reducer: one for a result,
  none for a rejection.
\<close>

fun outcome_action :: "TerminateMutationVariables \<times> MutationData settled \<Rightarrow> TerminationDialogAction list" where
  "outcome_action (v, Resolved data) =
     (if data_typename data = Some ''TerminateRunSuccess'' then [TerminationSuccess]
      else [TerminationError (runId v) (data_result data)])"
| "outcome_action (v, Rejected reason) = []"

text \<open>
  Mutation results for concrete batches. \<open>TerminateRunSuccess\<close> is the result the dialog
  tests for; \<open>TerminateRunFailure\<close> stands for a refusal of the backend.
\<close>

definition TerminateRunSuccess :: MutationData where
  "TerminateRunSuccess =
     Some \<lparr> terminatePipelineExecution = \<lparr> typename = ''TerminateRunSuccess'', message = [] \<rparr> \<rparr>"

definition TerminateRunFailure :: MutationData where
  "TerminateRunFailure =
     Some \<lparr> terminatePipelineExecution =
              \<lparr> typename = ''TerminateRunFailure'', message = ''could not terminate'' \<rparr> \<rparr>"

text \<open>
  Modelled from the spec: the result types of the terminate mutation are declared outside
  the files at hand. The specification (4.3, 7) names the outcome of a termination request
  for a run that has already reached a terminal status \<open>AlreadyTerminalError\<close>, an
  outcome distinct from success and from a termination failure.
\<close>

definition AlreadyTerminalError :: MutationData where
  "AlreadyTerminalError =
     Some \<lparr> terminatePipelineExecution =
              \<lparr> typename = ''AlreadyTerminalError'', message = ''run is in a terminal status'' \<rparr> \<rparr>"

text \<open>
  A selection of two runs, and a backend that terminates \<open>run-a\<close>, refuses every other
  run and counts the mutations it has served.
\<close>

definition example_runs :: SelectedRuns where
  "example_runs = [(''run-a'', True), (''run-b'', False)]"

definition example_terminate ::
  "nat \<Rightarrow> TerminateMutationVariables \<Rightarrow> MutationData settled \<times> nat" where
  "example_terminate b v =
     (Resolved (if runId v = ''run-a'' then TerminateRunSuccess else TerminateRunFailure), Suc b)"

text \<open>
  A selection of three runs that cannot terminate cooperatively, and a backend that
  refuses \<open>run-a\<close>, fails to answer for \<open>run-b\<close> (the promise is rejected) and would
  terminate every other run.
\<close>

definition stuck_runs :: SelectedRuns where
  "stuck_runs = [(''run-a'', False), (''run-b'', False), (''run-c'', False)]"

definition failing_terminate ::
  "nat \<Rightarrow> TerminateMutationVariables \<Rightarrow> MutationData settled \<times> nat" where
  "failing_terminate b v =
     (if runId v = ''run-a'' then Resolved TerminateRunFailure
      else if runId v = ''run-b'' then Rejected ''Failed to fetch''
      else Resolved TerminateRunSuccess, Suc b)"

section \<open>Retention of ticks\<close>

text \<open>
  Modelled from the spec: the Retention Sweeper and the normalisation of a retention
  policy are not among the files at hand, which hold the documentation of the
  \<open>retention\<close> key only (deployment/dagster-instance.mdx). A policy is configured as a
  single integer for all tick types or as a mapping over skipped, failure and success
  (specification 3, 4.6; the documentation's \<open>purge_after_days\<close>).
\<close>

datatype TickType = STARTED | SKIPPED | FAILURE | SUCCESS

record PerTypeDays =
  skipped :: int
  failure :: int
  success :: int

datatype PurgeAfterDays = AllTypes int | PerType PerTypeDays

text \<open>
  A normalised policy gives each tick type its threshold in days, if it has one.
\<close>

type_synonym RetentionPolicy = "TickType \<rightharpoonup> int"

text \<open>
  Modelled from the spec: "normalizable from either a single scalar (applies to all types)
  or an explicit per-type mapping" (3). The scalar applies to the four tick types of the
  data model; the mapping ranges over skipped, failure and success and configures no
  threshold for started ticks.
\<close>

fun normalize_retention :: "PurgeAfterDays \<Rightarrow> RetentionPolicy" where
  "normalize_retention (AllTypes days) = (\<lambda>ty. Some days)"
| "normalize_retention (PerType m) =
     (\<lambda>ty. case ty of STARTED \<Rightarrow> None | SKIPPED \<Rightarrow> Some (skipped m)
           | FAILURE \<Rightarrow> Some (failure m) | SUCCESS \<Rightarrow> Some (success m))"

text \<open>
  Modelled from the spec: the sweeper "deletes Tick records whose age exceeds the
  configured per-type threshold; a threshold of -1 for a type means that type is exempt"
  (4.6). Ages and thresholds are in days; a type without a configured threshold has
  nothing to exceed.
\<close>

definition purges :: "RetentionPolicy \<Rightarrow> TickType \<Rightarrow> int \<Rightarrow> bool" where
  "purges pol ty age_days =
     (case pol ty of None \<Rightarrow> False | Some days \<Rightarrow> days \<noteq> - 1 \<and> days < age_days)"

record Tick =
  tick_type :: TickType
  timestamp :: int

text \<open>
  Modelled from the spec: one sweep at day \<open>now\<close> over the stored ticks, keeping the
  ticks that are not purged (4.6). Timestamps are in days.
\<close>

definition sweep :: "RetentionPolicy \<Rightarrow> int \<Rightarrow> Tick list \<Rightarrow> Tick list" where
  "sweep pol now ticks = filter (\<lambda>t. \<not> purges pol (tick_type t) (now - timestamp t)) ticks"

text \<open>The policy of the documentation's example: \<open>{skipped: 7, failure: 30, success: -1}\<close>.\<close>

definition example_retention :: PurgeAfterDays where
  "example_retention = PerType \<lparr> skipped = 7, failure = 30, success = - 1 \<rparr>"

section \<open>The concurrency ledger\<close>

text \<open>
  Modelled from the spec: the Concurrency Ledger is not among the files at hand, which hold
  the documentation of the \<open>QueuedRunCoordinator\<close> configuration only
  (deployment/dagster-instance.mdx: \<open>max_concurrent_runs\<close>, \<open>tag_concurrency_limits\<close>
  with \<open>key\<close>, an optional \<open>value\<close> and \<open>limit\<close>). The ledger holds the global count
  of active runs and one count per tag key and optional value (specification 2, 3, 4.1).
\<close>

record TagConcurrencyLimit =
  limit_key :: string
  limit_value :: "string option"
  limit :: int

record CoordinatorConfig =
  max_concurrent_runs :: int
  tag_concurrency_limits :: "TagConcurrencyLimit list"

record Run =
  run_id :: string
  tags :: "(string \<times> string) list"

record Ledger =
  global_count :: int
  tag_counts :: "string \<times> string option \<Rightarrow> int"

definition counter_of :: "TagConcurrencyLimit \<Rightarrow> string \<times> string option" where
  "counter_of l = (limit_key l, limit_value l)"

text \<open>
  Modelled from the spec: a tagged limit applies to a run that carries a tag with the
  limit's key and, when the limit names a value, that value (3).
\<close>

definition limit_applies :: "TagConcurrencyLimit \<Rightarrow> Run \<Rightarrow> bool" where
  "limit_applies l run =
     list_ex (\<lambda>(k, v). k = limit_key l \<and> (case limit_value l of None \<Rightarrow> True | Some lv \<Rightarrow> v = lv))
       (tags run)"

definition applicable_limits :: "CoordinatorConfig \<Rightarrow> Run \<Rightarrow> TagConcurrencyLimit list" where
  "applicable_limits cfg run = filter (\<lambda>l. limit_applies l run) (tag_concurrency_limits cfg)"

text \<open>
  Modelled from the spec: the check of \<open>reserve\<close>, "none of the post-increment values
  would exceed their configured limits", over the global counter and every applicable
  limit (4.1).
\<close>

definition fits :: "CoordinatorConfig \<Rightarrow> Ledger \<Rightarrow> Run \<Rightarrow> bool" where
  "fits cfg led run =
     (global_count led + 1 \<le> max_concurrent_runs cfg \<and>
      list_all (\<lambda>l. tag_counts led (counter_of l) + 1 \<le> limit l) (applicable_limits cfg run))"

text \<open>
  Modelled from the spec: the commit of \<open>reserve\<close>, which increments the global counter
  and the counter of every applicable limit (4.1).
\<close>

definition commit :: "CoordinatorConfig \<Rightarrow> Ledger \<Rightarrow> Run \<Rightarrow> Ledger" where
  "commit cfg led run =
     led\<lparr> global_count := global_count led + 1,
          tag_counts := (\<lambda>c. if c \<in> set (map counter_of (applicable_limits cfg run))
                               then tag_counts led c + 1 else tag_counts led c) \<rparr>"

text \<open>
  Modelled from the spec: \<open>reserve(run) -> bool\<close> "evaluates all applicable limits
  before mutating any counter"; it returns the answer and the ledger (4.1).
\<close>

definition reserve :: "CoordinatorConfig \<Rightarrow> Ledger \<Rightarrow> Run \<Rightarrow> bool \<times> Ledger" where
  "reserve cfg led run =
     (if fits cfg led run then (True, commit cfg led run) else (False, led))"

text \<open>
  The limits of the documentation's example, a ledger with \<open>n\<close> active runs that are all
  tagged \<open>database=redshift\<close>, and one more such run.
\<close>

definition example_config :: CoordinatorConfig where
  "example_config =
     \<lparr> max_concurrent_runs = 25,
       tag_concurrency_limits =
         [\<lparr> limit_key = ''database'', limit_value = Some ''redshift'', limit = 4 \<rparr>,
          \<lparr> limit_key = ''dagster/backfill'', limit_value = None, limit = 10 \<rparr>] \<rparr>"

definition example_ledger :: "int \<Rightarrow> Ledger" where
  "example_ledger n =
     \<lparr> global_count = n,
       tag_counts = (\<lambda>c. if c = (''database'', Some ''redshift'') then n else 0) \<rparr>"

definition example_run :: Run where
  "example_run = \<lparr> run_id = ''run-5'', tags = [(''database'', ''redshift'')] \<rparr>"

section \<open>Properties of the state initializer and the reducer\<close>

lemma truthy_get_prop_iff: "truthy (get_prop runs rid) = (get_prop runs rid = Some True)"
  by (cases "get_prop runs rid") (simp_all add: truthy_def)

text \<open>
  C1 (as the code has it). The initial state forces exactly when no selected run has
  \<open>canTerminate\<close>: \<open>mustForce\<close> is true if and only if no run id of the selection maps
  to true. A selection with a run that can terminate starts with \<open>mustForce = false\<close>,
  whatever the other runs map to.
\<close>

theorem initializeState_mustForce:
  "mustForce (initializeState selectedRuns) =
     (\<forall>rid \<in> set (Object_keys selectedRuns). get_prop selectedRuns rid \<noteq> Some True)"
  by (simp add: initializeState_def list_ex_iff truthy_get_prop_iff)

theorem initializeState_mustForce_witness:
  "mustForce (initializeState [(''run-a'', False), (''run-b'', False)]) = True"
  using initializeState_mustForce [of "[(''run-a'', False), (''run-b'', False)]"]
  by (simp add: Object_keys_def get_prop_def)

text \<open>
  C1 as stated fails: in the selection below the run \<open>run-b\<close> maps to false, and the
  initial state does not force.
\<close>

theorem initializeState_mustForce_counterexample:
  "get_prop [(''run-a'', True), (''run-b'', False)] ''run-b'' = Some False \<and>
   mustForce (initializeState [(''run-a'', True), (''run-b'', False)]) = False"
  by (simp add: initializeState_def Object_keys_def get_prop_def truthy_def)

lemma reducer_completed:
  "\<not> is_reset a \<Longrightarrow>
     completed (termination' (terminationDialogReducer st a)) =
       completed (termination' st) + (if is_outcome a then 1 else 0)"
  by (cases a) simp_all

lemma foldl_reducer_completed:
  "\<forall>a \<in> set acts. \<not> is_reset a \<Longrightarrow>
     completed (termination' (foldl terminationDialogReducer st acts)) =
       completed (termination' st) + length (filter is_outcome acts)"
proof (induction acts arbitrary: st)
  case Nil
  then show ?case by simp
next
  case (Cons a acts)
  then show ?case by (simp add: reducer_completed)
qed

text \<open>
  C6. Over a sequence of actions without \<open>reset\<close>, the completed counter grows by the
  number of termination-success and termination-error actions of the sequence, each
  counting one, and so never decreases; the other actions leave it unchanged.
\<close>

theorem completed_monotone:
  assumes "\<forall>a \<in> set acts. \<not> is_reset a"
  shows "completed (termination' (foldl terminationDialogReducer st acts)) =
           completed (termination' st) + length (filter is_outcome acts) \<and>
         completed (termination' st) \<le>
           completed (termination' (foldl terminationDialogReducer st acts))"
  using foldl_reducer_completed [OF assms] by simp

theorem completed_monotone_witness:
  "completed (termination' (foldl terminationDialogReducer (initializeState [(''run-a'', True)])
      [Start, TerminationSuccess, ToggleForceTerminate True, TerminationError ''run-b'' None,
       Complete])) = 2"
  using completed_monotone [of "[Start, TerminationSuccess, ToggleForceTerminate True,
      TerminationError ''run-b'' None, Complete]" "initializeState [(''run-a'', True)]"]
  by (simp add: initializeState_def)

text \<open>
  C9. Every action other than \<open>reset\<close> leaves \<open>frozenRuns\<close> as it was.
\<close>

theorem reducer_frozenRuns:
  "\<not> is_reset a \<Longrightarrow> frozenRuns (terminationDialogReducer st a) = frozenRuns st"
  by (cases a) simp_all

theorem reducer_frozenRuns_witness:
  "frozenRuns (terminationDialogReducer (initializeState [(''run-a'', True)])
      (TerminationError ''run-a'' None)) = [(''run-a'', True)]"
  using reducer_frozenRuns [of "TerminationError ''run-a'' None" "initializeState [(''run-a'', True)]"]
  by (simp add: initializeState_def)

section \<open>Properties of the batch\<close>

text \<open>
  The loop never takes the branch in which \<open>refineToError\<close> throws, so one pass of
  the loop is a request followed, when its promise resolves, by the dispatch of its outcome;
  a rejected promise ends the loop.
\<close>

lemma refineToError_non_success:
  "data_typename data \<noteq> Some ''TerminateRunSuccess'' \<Longrightarrow> refineToError data = Inr (data_result data)"
  by (simp add: refineToError_def)

lemma mutate_loop_Cons:
  "mutate_loop t p (rid # rest) w =
     (let v = \<lparr> runId = rid, terminatePolicy = p \<rparr>; r = t (backend w) v;
          w1 = w\<lparr> requests := requests w @ [(v, fst r)], backend := snd r \<rparr>
      in case fst r of
           Rejected reason \<Rightarrow> w1\<lparr> thrown := Some (ApolloError reason) \<rparr>
         | Resolved data \<Rightarrow>
             mutate_loop t p rest
               (w1\<lparr> dispatched := dispatched w1 @ outcome_action (v, Resolved data) \<rparr>))"
proof (cases "t (backend w) \<lparr> runId = rid, terminatePolicy = p \<rparr>")
  case (Pair outcome b)
  show ?thesis
  proof (cases outcome)
    case (Resolved data)
    then show ?thesis
      by (simp add: Pair Let_def refineToError_non_success dispatch_def)
  next
    case (Rejected reason)
    then show ?thesis by (simp add: Pair Let_def)
  qed
qed

lemma mutate_loop_requests:
  "requests (mutate_loop t p xs w) =
     requests w @ sequential_calls t (map (\<lambda>rid. \<lparr> runId = rid, terminatePolicy = p \<rparr>) xs) (backend w)"
proof (induction xs arbitrary: w)
  case Nil
  then show ?case by simp
next
  case (Cons rid rest)
  show ?case
    by (simp only: mutate_loop_Cons Let_def)
       (simp add: Cons.IH split: settled.split)
qed

lemma mutate_loop_dispatched:
  "dispatched (mutate_loop t p xs w) =
     dispatched w @ concat (map outcome_action
       (sequential_calls t (map (\<lambda>rid. \<lparr> runId = rid, terminatePolicy = p \<rparr>) xs) (backend w)))"
proof (induction xs arbitrary: w)
  case Nil
  then show ?case by simp
next
  case (Cons rid rest)
  show ?case
    by (simp only: mutate_loop_Cons Let_def)
       (simp add: Cons.IH split: settled.split)
qed

lemma mutate_loop_thrown:
  "thrown (mutate_loop t p xs w) =
     (case rejection (sequential_calls t (map (\<lambda>rid. \<lparr> runId = rid, terminatePolicy = p \<rparr>) xs)
                        (backend w)) of
        None \<Rightarrow> thrown w
      | Some reason \<Rightarrow> Some (ApolloError reason))"
proof (induction xs arbitrary: w)
  case Nil
  then show ?case by simp
next
  case (Cons rid rest)
  show ?case
    by (simp only: mutate_loop_Cons Let_def)
       (simp add: Cons.IH split: settled.split option.split)
qed


lemma mutate_requests:
  "requests (mutate st t b) = sequential_calls t (batch_variables st) b"
  by (simp add: mutate_def Let_def mutate_loop_requests dispatch_def batch_variables_def
      split: option.split)

lemma mutate_thrown:
  "thrown (mutate st t b) = map_option ApolloError (rejection (requests (mutate st t b)))"
  by (simp add: mutate_requests)
     (simp add: mutate_def Let_def mutate_loop_thrown dispatch_def batch_variables_def
      split: option.split)

lemma mutate_dispatched:
  "dispatched (mutate st t b) =
     Start # concat (map outcome_action (requests (mutate st t b))) @
       (if rejection (requests (mutate st t b)) = None then [Complete] else [])"
  by (simp add: mutate_requests)
     (simp add: mutate_def Let_def mutate_loop_thrown mutate_loop_dispatched dispatch_def
      batch_variables_def split: option.split)


lemma sequential_calls_prefix:
  "map fst (sequential_calls t vs b) = take (length (sequential_calls t vs b)) vs"
  by (induction vs arbitrary: b) (simp_all split: settled.split)

lemma sequential_calls_complete:
  "rejection (sequential_calls t vs b) = None \<Longrightarrow> map fst (sequential_calls t vs b) = vs"
  by (induction vs arbitrary: b) (simp_all split: settled.splits)


lemma rejection_None_iff: "rejection log = None \<longleftrightarrow> (\<forall>x \<in> set log. is_resolved x)"
  by (induction log rule: rejection.induct) simp_all

lemma completed_foldl_outcomes:
  "completed (termination' (foldl terminationDialogReducer s (concat (map outcome_action log)))) =
     completed (termination' s) + length (filter is_resolved log)"
proof (induction log arbitrary: s)
  case Nil
  then show ?case by simp
next
  case (Cons x log)
  obtain v r where x: "x = (v, r)" by (cases x)
  show ?case by (cases r) (simp_all add: x Cons.IH)
qed

lemma errors_foldl_other:
  "rid \<notin> set (map (\<lambda>r. runId (fst r)) log) \<Longrightarrow>
     errors (termination' (foldl terminationDialogReducer s (concat (map outcome_action log)))) rid =
       errors (termination' s) rid"
proof (induction log arbitrary: s)
  case Nil
  then show ?case by simp
next
  case (Cons x log)
  obtain v r where x: "x = (v, r)" by (cases x)
  from Cons.prems have "rid \<noteq> runId v" and "rid \<notin> set (map (\<lambda>r. runId (fst r)) log)"
    by (simp_all add: x)
  then show ?case by (cases r) (simp_all add: x Cons.IH)
qed

lemma errors_foldl_entry:
  "distinct (map (\<lambda>r. runId (fst r)) log) \<Longrightarrow> (v, Resolved d) \<in> set log \<Longrightarrow>
     errors (termination' (foldl terminationDialogReducer s (concat (map outcome_action log))))
         (runId v) =
       (if data_typename d = Some ''TerminateRunSuccess'' then errors (termination' s) (runId v)
        else Some (data_result d))"
proof (induction log arbitrary: s)
  case Nil
  then show ?case by simp
next
  case (Cons x log)
  obtain v' r' where x: "x = (v', r')" by (cases x)
  show ?case
  proof (cases "(v, Resolved d) = x")
    case True
    have "runId (fst x) \<notin> set (map (\<lambda>r. runId (fst r)) log)"
      using Cons.prems(1) by simp
    then have "runId v \<notin> set (map (\<lambda>r. runId (fst r)) log)"
      by (simp add: True [symmetric])
    then show ?thesis using True [symmetric] by (simp add: errors_foldl_other)
  next
    case False
    with Cons.prems have mem: "(v, Resolved d) \<in> set log"
      and dist: "distinct (map (\<lambda>r. runId (fst r)) log)"
      by simp_all
    have "runId v' \<notin> set (map (\<lambda>r. runId (fst r)) log)"
      using Cons.prems(1) by (simp add: x)
    moreover have "runId v \<in> set (map (\<lambda>r. runId (fst r)) log)"
      using mem by force
    ultimately have ne: "runId v' \<noteq> runId v" by metis
    show ?thesis using ne by (cases r') (simp_all add: x Cons.IH [OF dist mem])
  qed
qed

lemma termination_dialog_after:
  "termination' (dialog_after st (mutate st t b)) =
     termination' (foldl terminationDialogReducer (terminationDialogReducer st Start)
        (concat (map outcome_action (requests (mutate st t b)))))"
  by (simp add: dialog_after_def mutate_dispatched)

lemma mutate_runIds:
  "map (\<lambda>r. runId (fst r)) (requests (mutate st t b)) =
     take (length (requests (mutate st t b))) (Object_keys (frozenRuns st))"
proof -
  have "map runId (map fst (requests (mutate st t b))) =
      map runId (take (length (requests (mutate st t b))) (batch_variables st))"
    using sequential_calls_prefix [of t "batch_variables st" b] by (simp add: mutate_requests)
  then show ?thesis by (simp add: batch_variables_def take_map comp_def)
qed

lemma sequential_calls_length_le: "length (sequential_calls t vs b) \<le> length vs"
  by (induction vs arbitrary: b) (simp_all split: settled.split)

lemma mutate_requests_length:
  "length (requests (mutate st t b)) \<le> length (Object_keys (frozenRuns st))"
proof -
  have "length (requests (mutate st t b)) \<le> length (batch_variables st)"
    by (simp add: mutate_requests sequential_calls_length_le)
  then show ?thesis by (simp add: batch_variables_def)
qed

lemma mutate_complete:
  assumes "thrown (mutate st t b) = None"
  shows "map fst (requests (mutate st t b)) = batch_variables st"
    and "map (\<lambda>r. runId (fst r)) (requests (mutate st t b)) = Object_keys (frozenRuns st)"
    and "length (requests (mutate st t b)) = length (Object_keys (frozenRuns st))"
    and "length (filter is_resolved (requests (mutate st t b))) = length (Object_keys (frozenRuns st))"
proof -
  from assms have rej: "rejection (requests (mutate st t b)) = None"
    by (simp add: mutate_thrown)
  then show 1: "map fst (requests (mutate st t b)) = batch_variables st"
    using sequential_calls_complete [of t "batch_variables st" b] by (simp add: mutate_requests)
  have "map runId (map fst (requests (mutate st t b))) = map runId (batch_variables st)"
    by (simp only: 1)
  then show 2: "map (\<lambda>r. runId (fst r)) (requests (mutate st t b)) = Object_keys (frozenRuns st)"
    by (simp add: batch_variables_def comp_def)
  then show 3: "length (requests (mutate st t b)) = length (Object_keys (frozenRuns st))"
    by (metis length_map)
  from rej have "filter is_resolved (requests (mutate st t b)) = requests (mutate st t b)"
    by (simp add: rejection_None_iff)
  then show "length (filter is_resolved (requests (mutate st t b))) = length (Object_keys (frozenRuns st))"
    using 3 by simp
qed

lemma completed_dialog_after:
  "completed (termination' (dialog_after st (mutate st t b))) =
     completed (termination' st) + length (filter is_resolved (requests (mutate st t b)))"
  by (simp add: termination_dialog_after completed_foldl_outcomes)

lemma errors_dialog_after:
  assumes "distinct (Object_keys (frozenRuns st))"
    and "i < length (requests (mutate st t b))"
    and "snd (requests (mutate st t b) ! i) = Resolved d"
  shows "runId (fst (requests (mutate st t b) ! i)) = Object_keys (frozenRuns st) ! i"
    and "errors (termination' (dialog_after st (mutate st t b))) (Object_keys (frozenRuns st) ! i) =
           (if data_typename d = Some ''TerminateRunSuccess''
            then errors (termination' st) (Object_keys (frozenRuns st) ! i)
            else Some (data_result d))"
proof -
  let ?log = "requests (mutate st t b)"
  have ids: "map (\<lambda>r. runId (fst r)) ?log = take (length ?log) (Object_keys (frozenRuns st))"
    by (rule mutate_runIds)
  obtain v where vd: "?log ! i = (v, Resolved d)" using assms(3) by (cases "?log ! i") simp
  have mem: "(v, Resolved d) \<in> set ?log" using assms(2) vd by (metis nth_mem)
  have "map (\<lambda>r. runId (fst r)) ?log ! i = take (length ?log) (Object_keys (frozenRuns st)) ! i"
    by (simp only: ids)
  then have rid: "runId v = Object_keys (frozenRuns st) ! i"
    using assms(2) vd by simp
  have dist: "distinct (map (\<lambda>r. runId (fst r)) ?log)"
    using assms(1) by (simp add: ids)
  show "runId (fst (?log ! i)) = Object_keys (frozenRuns st) ! i" using rid vd by simp
  show "errors (termination' (dialog_after st (mutate st t b))) (Object_keys (frozenRuns st) ! i) =
           (if data_typename d = Some ''TerminateRunSuccess''
            then errors (termination' st) (Object_keys (frozenRuns st) ! i)
            else Some (data_result d))"
    using errors_foldl_entry [OF dist mem, of "terminationDialogReducer st Start"]
    by (simp add: termination_dialog_after rid)
qed


lemma sequential_calls_resolving:
  "(\<And>b v. \<exists>d. fst (t b v) = Resolved d) \<Longrightarrow> rejection (sequential_calls t vs b) = None"
proof (induction vs arbitrary: b)
  case Nil
  then show ?case by simp
next
  case (Cons v vs)
  from Cons.prems obtain d where "fst (t b v) = Resolved d" by blast
  then show ?case using Cons.IH [OF Cons.prems] by simp
qed

lemma mutate_resolving:
  "(\<And>b v. \<exists>d. fst (t b v) = Resolved d) \<Longrightarrow> thrown (mutate st t b) = None"
  by (simp add: mutate_thrown) (simp add: mutate_requests sequential_calls_resolving)


lemmas example_defs =
  example_runs_def example_terminate_def stuck_runs_def failing_terminate_def
  TerminateRunSuccess_def TerminateRunFailure_def
  AlreadyTerminalError_def initializeState_def Object_keys_def get_prop_def truthy_def
  mutate_def dialog_after_def dispatch_def policy_def refineToError_def data_typename_def
  data_result_def Let_def

text \<open>
  C2 (the code differs). \<open>mutate\<close> calls \<open>onComplete\<close> with \<open>state.termination\<close>,
  the termination state of the render that created the closure, in which nothing has been
  recorded yet. For the selection \<open>{run-a: true, run-b: false}\<close> and a backend that
  terminates \<open>run-a\<close> and refuses \<open>run-b\<close>, \<open>onComplete\<close> receives
  \<open>{completed: 0, errors: {}}\<close>, while the reducer's state after the batch holds the
  aggregated outcome: \<open>completed = 2\<close> and the error of \<open>run-b\<close>.
\<close>

theorem mutate_onComplete_stale:
  "onComplete_calls (mutate (initializeState example_runs) example_terminate 0) =
     [\<lparr> completed = 0, errors = Map.empty \<rparr>] \<and>
   termination' (dialog_after (initializeState example_runs)
       (mutate (initializeState example_runs) example_terminate 0)) =
     \<lparr> completed = 2,
       errors = [''run-b'' \<mapsto> Some \<lparr> typename = ''TerminateRunFailure'',
                                       message = ''could not terminate'' \<rparr>] \<rparr>"
  by (simp add: example_defs)

text \<open>
  C3 (as the code has it). A request is recorded as a success exactly when the mutation's
  result is \<open>TerminateRunSuccess\<close>: at every position of the batch such a request leaves
  the errors map without an entry of its own (the entry of its run id is what it was
  before the batch), and a request with any other result is recorded under its run id.
  The completed count grows by one for every mutation that returned a result, whatever
  the result; when no mutation is rejected, that is the number of runs of the batch.
\<close>

theorem mutate_success_recorded:
  assumes "distinct (Object_keys (frozenRuns st))"
    and "i < length (requests (mutate st terminate b))"
    and "snd (requests (mutate st terminate b) ! i) = Resolved d"
  shows "runId (fst (requests (mutate st terminate b) ! i)) = Object_keys (frozenRuns st) ! i \<and>
         errors (termination' (dialog_after st (mutate st terminate b)))
             (Object_keys (frozenRuns st) ! i) =
           (if data_typename d = Some ''TerminateRunSuccess''
            then errors (termination' st) (Object_keys (frozenRuns st) ! i)
            else Some (data_result d)) \<and>
         completed (termination' (dialog_after st (mutate st terminate b))) =
           completed (termination' st) +
             length (filter is_resolved (requests (mutate st terminate b))) \<and>
         (thrown (mutate st terminate b) = None \<longrightarrow>
            length (requests (mutate st terminate b)) = length (Object_keys (frozenRuns st)) \<and>
            completed (termination' (dialog_after st (mutate st terminate b))) =
              completed (termination' st) + length (Object_keys (frozenRuns st)))"
  using errors_dialog_after [OF assms] completed_dialog_after [of st terminate b]
    mutate_complete(3,4) [of st terminate b]
  by simp

theorem mutate_success_recorded_witness:
  "errors (termination' (dialog_after (initializeState example_runs)
       (mutate (initializeState example_runs) example_terminate 0))) ''run-a'' = None \<and>
   completed (termination' (dialog_after (initializeState example_runs)
       (mutate (initializeState example_runs) example_terminate 0))) = 2"
  using mutate_success_recorded [of "initializeState example_runs" 0 example_terminate 0
      TerminateRunSuccess]
  by (simp add: example_defs)

text \<open>
  C3 as stated fails: a request answered with the already-terminal outcome is recorded
  in the errors map under its run id.
\<close>

theorem already_terminal_counterexample:
  "errors (termination' (dialog_after (initializeState [(''run-a'', True)])
       (mutate (initializeState [(''run-a'', True)])
          (\<lambda>b v. (Resolved AlreadyTerminalError, b)) (0::nat))))
     ''run-a'' =
   Some (Some \<lparr> typename = ''AlreadyTerminalError'', message = ''run is in a terminal status'' \<rparr>)"
  by (simp add: example_defs)

text \<open>
  C4. The mutations \<open>mutate\<close> issues are the sequential calls over the run ids of the
  frozen runs, in the order of \<open>Object.keys\<close>, each awaited before the next; every one
  of them carries the same policy, \<open>MARK_AS_CANCELED_IMMEDIATELY\<close> when \<open>mustForce\<close>
  is true and \<open>SAFE_TERMINATE\<close> when it is false. A batch that is not empty issues a
  mutation; the mutations issued are for an initial segment of the run ids, and for all
  of them when nothing is thrown.
\<close>

theorem mutate_sequential_single_policy:
  "requests (mutate st terminate b) =
     sequential_calls terminate
       (map (\<lambda>rid. \<lparr> runId = rid,
                      terminatePolicy = (if mustForce st then MARK_AS_CANCELED_IMMEDIATELY
                                         else SAFE_TERMINATE) \<rparr>)
            (map fst (frozenRuns st))) b \<and>
   map fst (requests (mutate st terminate b)) =
     take (length (requests (mutate st terminate b)))
       (map (\<lambda>rid. \<lparr> runId = rid,
                      terminatePolicy = (if mustForce st then MARK_AS_CANCELED_IMMEDIATELY
                                         else SAFE_TERMINATE) \<rparr>)
            (map fst (frozenRuns st))) \<and>
   (frozenRuns st \<noteq> [] \<longrightarrow> requests (mutate st terminate b) \<noteq> []) \<and>
   (thrown (mutate st terminate b) = None \<longrightarrow>
      map fst (requests (mutate st terminate b)) =
        map (\<lambda>rid. \<lparr> runId = rid,
                       terminatePolicy = (if mustForce st then MARK_AS_CANCELED_IMMEDIATELY
                                          else SAFE_TERMINATE) \<rparr>)
            (map fst (frozenRuns st)))"
proof -
  have bv: "batch_variables st =
      map (\<lambda>rid. \<lparr> runId = rid,
                     terminatePolicy = (if mustForce st then MARK_AS_CANCELED_IMMEDIATELY
                                        else SAFE_TERMINATE) \<rparr>)
          (map fst (frozenRuns st))"
    by (simp add: batch_variables_def policy_def Object_keys_def)
  have 1: "requests (mutate st terminate b) = sequential_calls terminate (batch_variables st) b"
    by (rule mutate_requests)
  have 2: "map fst (requests (mutate st terminate b)) =
      take (length (requests (mutate st terminate b))) (batch_variables st)"
    using sequential_calls_prefix [of terminate "batch_variables st" b] by (simp add: 1)
  have 3: "frozenRuns st \<noteq> [] \<longrightarrow> requests (mutate st terminate b) \<noteq> []"
    by (cases "frozenRuns st") (simp_all add: 1 batch_variables_def Object_keys_def split: settled.split)
  have 4: "thrown (mutate st terminate b) = None \<longrightarrow>
      map fst (requests (mutate st terminate b)) = batch_variables st"
    using mutate_complete(1) [of st terminate b] by simp
  show ?thesis using 1 2 3 4 by (simp only: bv)
qed

theorem mutate_sequential_single_policy_witness:
  "requests (mutate (initializeState example_runs) example_terminate 0) =
     [(\<lparr> runId = ''run-a'', terminatePolicy = SAFE_TERMINATE \<rparr>, Resolved TerminateRunSuccess),
      (\<lparr> runId = ''run-b'', terminatePolicy = SAFE_TERMINATE \<rparr>, Resolved TerminateRunFailure)] \<and>
   backend (mutate (initializeState example_runs) example_terminate 0) = 2 \<and>
   map fst (requests (mutate (initializeState stuck_runs) failing_terminate 0)) =
     [\<lparr> runId = ''run-a'', terminatePolicy = MARK_AS_CANCELED_IMMEDIATELY \<rparr>,
      \<lparr> runId = ''run-b'', terminatePolicy = MARK_AS_CANCELED_IMMEDIATELY \<rparr>]"
  using mutate_sequential_single_policy [of "initializeState example_runs" example_terminate 0]
    mutate_sequential_single_policy [of "initializeState stuck_runs" failing_terminate 0]
  by (simp add: example_defs)




text \<open>
  C10. The exception of \<open>refineToError\<close> never escapes \<open>mutate\<close>: what a run of
  \<open>mutate\<close> throws is the reason of a rejected mutation and nothing else, and nothing
  when every mutation returns a result. \<open>refineToError\<close> returns normally on every
  result whose typename is not \<open>TerminateRunSuccess\<close>: the payload, or undefined when
  the mutation returned no data.
\<close>

theorem refineToError_no_throw:
  "thrown (mutate st terminate b) =
     map_option ApolloError (rejection (requests (mutate st terminate b))) \<and>
   thrown (mutate st terminate b) \<noteq> Some (ErrorEvent msg) \<and>
   ((\<forall>x \<in> set (requests (mutate st terminate b)). is_resolved x) \<longrightarrow>
      thrown (mutate st terminate b) = None) \<and>
   (data_typename data \<noteq> Some ''TerminateRunSuccess'' \<longrightarrow>
      refineToError data = Inr (data_result data))"
proof -
  have 1: "thrown (mutate st terminate b) =
      map_option ApolloError (rejection (requests (mutate st terminate b)))"
    by (rule mutate_thrown)
  then have 2: "thrown (mutate st terminate b) \<noteq> Some (ErrorEvent msg)"
    by (cases "rejection (requests (mutate st terminate b))") simp_all
  have 3: "(\<forall>x \<in> set (requests (mutate st terminate b)). is_resolved x) \<longrightarrow>
      thrown (mutate st terminate b) = None"
    using 1 by (simp add: rejection_None_iff)
  show ?thesis using 1 2 3 by (simp add: refineToError_non_success)
qed

theorem refineToError_no_throw_witness:
  "thrown (mutate (initializeState example_runs) example_terminate 0) = None \<and>
   refineToError TerminateRunFailure =
     Inr (Some \<lparr> typename = ''TerminateRunFailure'', message = ''could not terminate'' \<rparr>) \<and>
   refineToError None = Inr None \<and>
   refineToError TerminateRunSuccess = Inl (ErrorEvent ''Not an error!'')"
  using refineToError_no_throw [of "initializeState example_runs" example_terminate 0
      "''Not an error!''" TerminateRunFailure]
    refineToError_no_throw [of "initializeState example_runs" example_terminate 0
      "''Not an error!''" None]
  by (simp add: example_defs)

section \<open>Properties of retention and of the ledger\<close>

text \<open>
  C7. A policy is normalised from a single integer, which then applies to every tick
  type, or from a mapping over skipped, failure and success. A tick is purged exactly when
  its type has a threshold other than \<open>-1\<close> that its age exceeds; under any policy a
  type whose threshold is \<open>-1\<close> is never purged, and a sweep keeps its ticks. Under
  \<open>{skipped: 7, failure: 30, success: -1}\<close> a skipped tick aged 8 days is purged, a
  failure tick aged 10 days is retained, and a success tick is retained at any age.
\<close>

theorem retention_policy:
  "normalize_retention (AllTypes days) ty = Some days \<and>
   normalize_retention (PerType \<lparr> skipped = a, failure = b, success = c \<rparr>) SKIPPED = Some a \<and>
   normalize_retention (PerType \<lparr> skipped = a, failure = b, success = c \<rparr>) FAILURE = Some b \<and>
   normalize_retention (PerType \<lparr> skipped = a, failure = b, success = c \<rparr>) SUCCESS = Some c \<and>
   (purges pol ty age \<longleftrightarrow> (\<exists>days. pol ty = Some days \<and> days \<noteq> - 1 \<and> days < age)) \<and>
   (pol ty = Some (- 1) \<longrightarrow> \<not> purges pol ty age) \<and>
   (normalize_retention cfg ty = Some (- 1) \<longrightarrow> \<not> purges (normalize_retention cfg) ty age) \<and>
   (pol (tick_type t) = Some (- 1) \<and> t \<in> set ticks \<longrightarrow> t \<in> set (sweep pol now ticks)) \<and>
   set (sweep pol now ticks) =
     {t \<in> set ticks. \<not> purges pol (tick_type t) (now - timestamp t)} \<and>
   \<not> purges (normalize_retention (AllTypes (- 1))) ty age \<and>
   purges (normalize_retention example_retention) SKIPPED 8 \<and>
   \<not> purges (normalize_retention example_retention) FAILURE 10 \<and>
   \<not> purges (normalize_retention example_retention) SUCCESS age \<and>
   sweep (normalize_retention example_retention) now
     [\<lparr> tick_type = SKIPPED, timestamp = now - 8 \<rparr>,
      \<lparr> tick_type = FAILURE, timestamp = now - 10 \<rparr>,
      \<lparr> tick_type = SUCCESS, timestamp = now - age \<rparr>] =
     [\<lparr> tick_type = FAILURE, timestamp = now - 10 \<rparr>,
      \<lparr> tick_type = SUCCESS, timestamp = now - age \<rparr>]"
proof -
  have 1: "purges pol ty age \<longleftrightarrow> (\<exists>days. pol ty = Some days \<and> days \<noteq> - 1 \<and> days < age)"
    by (cases "pol ty") (simp_all add: purges_def)
  have 2: "pol ty = Some (- 1) \<longrightarrow> \<not> purges pol ty age"
    by (simp add: purges_def)
  have 3: "normalize_retention cfg ty = Some (- 1) \<longrightarrow> \<not> purges (normalize_retention cfg) ty age"
    by (simp add: purges_def)
  have 4: "pol (tick_type t) = Some (- 1) \<and> t \<in> set ticks \<longrightarrow> t \<in> set (sweep pol now ticks)"
    by (simp add: sweep_def purges_def)
  have 5: "set (sweep pol now ticks) =
      {t \<in> set ticks. \<not> purges pol (tick_type t) (now - timestamp t)}"
    by (simp add: sweep_def)
  have 6: "\<not> purges (normalize_retention (AllTypes (- 1))) ty age \<and>
      purges (normalize_retention example_retention) SKIPPED 8 \<and>
      \<not> purges (normalize_retention example_retention) FAILURE 10 \<and>
      \<not> purges (normalize_retention example_retention) SUCCESS age"
    by (simp add: purges_def example_retention_def)
  have 7: "sweep (normalize_retention example_retention) now
     [\<lparr> tick_type = SKIPPED, timestamp = now - 8 \<rparr>,
      \<lparr> tick_type = FAILURE, timestamp = now - 10 \<rparr>,
      \<lparr> tick_type = SUCCESS, timestamp = now - age \<rparr>] =
     [\<lparr> tick_type = FAILURE, timestamp = now - 10 \<rparr>,
      \<lparr> tick_type = SUCCESS, timestamp = now - age \<rparr>]"
    by (simp add: sweep_def purges_def example_retention_def)
  show ?thesis using 1 2 3 4 5 6 7 by simp
qed

theorem retention_policy_witness:
  "\<not> purges (normalize_retention (PerType \<lparr> skipped = - 1, failure = 30, success = 7 \<rparr>))
       SKIPPED 1000 \<and>
   sweep (normalize_retention (PerType \<lparr> skipped = - 1, failure = 30, success = 7 \<rparr>)) 1000
     [\<lparr> tick_type = SKIPPED, timestamp = 0 \<rparr>, \<lparr> tick_type = SUCCESS, timestamp = 0 \<rparr>] =
     [\<lparr> tick_type = SKIPPED, timestamp = 0 \<rparr>] \<and>
   normalize_retention (AllTypes 90) STARTED = Some 90 \<and>
   purges (normalize_retention (AllTypes 90)) STARTED 91 \<and>
   purges (normalize_retention example_retention) SKIPPED 8 \<and>
   \<not> purges (normalize_retention example_retention) FAILURE 10 \<and>
   \<not> purges (normalize_retention example_retention) SUCCESS 100000"
  using retention_policy [where days = 90 and ty = SKIPPED and age = 1000
      and pol = "normalize_retention (PerType \<lparr> skipped = - 1, failure = 30, success = 7 \<rparr>)"
      and cfg = "PerType \<lparr> skipped = - 1, failure = 30, success = 7 \<rparr>"
      and t = "\<lparr> tick_type = SKIPPED, timestamp = 0 \<rparr>"
      and ticks = "[\<lparr> tick_type = SKIPPED, timestamp = 0 \<rparr>,
                    \<lparr> tick_type = SUCCESS, timestamp = 0 \<rparr>]"
      and now = 1000]
  by (simp add: purges_def sweep_def example_retention_def)

lemma reserve_rejected: "\<not> fst (reserve cfg led run) \<Longrightarrow> snd (reserve cfg led run) = led"
  by (simp add: reserve_def split: if_splits)

lemma reserve_accepted:
  assumes "fst (reserve cfg led run)"
  shows "global_count led + 1 \<le> max_concurrent_runs cfg"
    and "\<forall>l \<in> set (tag_concurrency_limits cfg). limit_applies l run \<longrightarrow>
           tag_counts led (counter_of l) + 1 \<le> limit l"
    and "global_count (snd (reserve cfg led run)) = global_count led + 1"
    and "\<forall>l \<in> set (tag_concurrency_limits cfg). limit_applies l run \<longrightarrow>
           tag_counts (snd (reserve cfg led run)) (counter_of l) = tag_counts led (counter_of l) + 1"
proof -
  from assms have f: "fits cfg led run" by (simp add: reserve_def split: if_splits)
  then have r: "snd (reserve cfg led run) = commit cfg led run" by (simp add: reserve_def)
  from f show "global_count led + 1 \<le> max_concurrent_runs cfg" by (simp add: fits_def)
  from f show "\<forall>l \<in> set (tag_concurrency_limits cfg). limit_applies l run \<longrightarrow>
           tag_counts led (counter_of l) + 1 \<le> limit l"
    by (simp add: fits_def applicable_limits_def list_all_iff)
  show "global_count (snd (reserve cfg led run)) = global_count led + 1"
    by (simp add: r commit_def)
  show "\<forall>l \<in> set (tag_concurrency_limits cfg). limit_applies l run \<longrightarrow>
           tag_counts (snd (reserve cfg led run)) (counter_of l) = tag_counts led (counter_of l) + 1"
    by (auto simp add: r commit_def applicable_limits_def)
qed

text \<open>
  C8. \<open>reserve\<close> answers true only if the global counter and the counter of every limit
  that applies to the run stay within their limits after the increment, and then each of
  these counters is incremented by one; when it answers false, the ledger is unchanged.
\<close>

theorem reserve_check_then_commit:
  "(fst (reserve cfg led run) \<longrightarrow>
      global_count led + 1 \<le> max_concurrent_runs cfg \<and>
      global_count (snd (reserve cfg led run)) = global_count led + 1 \<and>
      (\<forall>l \<in> set (tag_concurrency_limits cfg). limit_applies l run \<longrightarrow>
         tag_counts led (counter_of l) + 1 \<le> limit l \<and>
         tag_counts (snd (reserve cfg led run)) (counter_of l) = tag_counts led (counter_of l) + 1)) \<and>
   (\<not> fst (reserve cfg led run) \<longrightarrow> snd (reserve cfg led run) = led)"
  using reserve_accepted [of cfg led run] reserve_rejected [of cfg led run] by blast

theorem reserve_check_then_commit_witness:
  "fst (reserve example_config (example_ledger 4) example_run) = False \<and>
   snd (reserve example_config (example_ledger 4) example_run) = example_ledger 4 \<and>
   fst (reserve example_config (example_ledger 3) example_run) = True \<and>
   global_count (snd (reserve example_config (example_ledger 3) example_run)) = 4 \<and>
   tag_counts (snd (reserve example_config (example_ledger 3) example_run))
     (''database'', Some ''redshift'') = 4"
proof -
  have rej: "\<not> fst (reserve example_config (example_ledger 4) example_run)"
    by (simp add: reserve_def fits_def applicable_limits_def example_config_def example_ledger_def
        example_run_def limit_applies_def counter_of_def)
  have acc: "fst (reserve example_config (example_ledger 3) example_run)"
    by (simp add: reserve_def fits_def applicable_limits_def example_config_def example_ledger_def
        example_run_def limit_applies_def counter_of_def)
  have app: "limit_applies \<lparr> limit_key = ''database'', limit_value = Some ''redshift'', limit = 4 \<rparr>
      example_run"
    by (simp add: limit_applies_def example_run_def)
  have mem: "\<lparr> limit_key = ''database'', limit_value = Some ''redshift'', limit = 4 \<rparr>
      \<in> set (tag_concurrency_limits example_config)"
    by (simp add: example_config_def)
  from reserve_check_then_commit [of example_config "example_ledger 4" example_run] rej
  have 1: "snd (reserve example_config (example_ledger 4) example_run) = example_ledger 4"
    by blast
  from reserve_check_then_commit [of example_config "example_ledger 3" example_run] acc
  have 2: "global_count (snd (reserve example_config (example_ledger 3) example_run)) =
      global_count (example_ledger 3) + 1"
    and 3: "\<forall>l \<in> set (tag_concurrency_limits example_config). limit_applies l example_run \<longrightarrow>
         tag_counts (snd (reserve example_config (example_ledger 3) example_run)) (counter_of l) =
           tag_counts (example_ledger 3) (counter_of l) + 1"
    by blast+
  from 3 mem app have 4: "tag_counts (snd (reserve example_config (example_ledger 3) example_run))
      (''database'', Some ''redshift'') = tag_counts (example_ledger 3) (''database'', Some ''redshift'') + 1"
    by (fastforce simp: counter_of_def)
  show ?thesis using rej acc 1 2 4 by (simp add: example_ledger_def)
qed

end
